theory Spec2Isabelle
  imports Complex_Main
begin

section \<open>Animated values of the host framework\<close>

text \<open>
  The components hand numbers to the host framework wrapped as \<^verbatim>\<open>Animated.Value\<close>
  objects and derive further signals from them with \<^verbatim>\<open>.interpolate\<close>. A signal is
  kept as the expression the source builds: \<open>Value v\<close> is \<^verbatim>\<open>new Animated.Value(v)\<close>
  (with \<open>v\<close> the number it currently holds) and \<open>Interpolate s ins outs\<close> is
  \<^verbatim>\<open>s.interpolate({inputRange: ins, outputRange: outs})\<close>. JavaScript numbers are
  idealised as reals.
\<close>

datatype animated =
    Value real
  | Interpolate animated "real list" "real list"

text \<open>
  The interpolation operator of \<^verbatim>\<open>Animated\<close> is code of the host framework, outside
  the sources. Every call site passes an input range and an output range and no
  \<^verbatim>\<open>extrapolate\<close> option, so the framework's default, \<^verbatim>\<open>extend\<close>, applies: the
  segment of the table is the first one whose upper breakpoint is not below the input, or
  the last one, and the value is the line through that segment's two points, also for an
  input below the first or above the last breakpoint. The framework rejects a table with
  fewer than two breakpoints; no call site passes one, and the last equation stands for
  that case.
\<close>

fun interpolate :: "real list \<Rightarrow> real list \<Rightarrow> real \<Rightarrow> real" where
  "interpolate (x0 # x1 # x2 # xs) (y0 # y1 # y2 # ys) v =
     (if v \<le> x1 then y0 + (v - x0) * (y1 - y0) / (x1 - x0)
      else interpolate (x1 # x2 # xs) (y1 # y2 # ys) v)"
| "interpolate [x0, x1] (y0 # y1 # ys) v = y0 + (v - x0) * (y1 - y0) / (x1 - x0)"
| "interpolate xs ys v = v"

fun current :: "animated \<Rightarrow> real" where
  "current (Value v) = v"
| "current (Interpolate s ins outs) = interpolate ins outs (current s)"

section \<open>shadow\<close>

text \<open>
  \<^verbatim>\<open>Colors.black\<close> is declared in \<^verbatim>\<open>./colors\<close>, outside the sources; the constant
  is kept symbolic.
\<close>

datatype color_constant = Colors_black

definition SHADOW_COLOR :: color_constant where
  "SHADOW_COLOR = Colors_black"

definition SHADOW_OPACITY :: real where
  "SHADOW_OPACITY = 0.35"

record 'n offset =
  width :: 'n
  height :: 'n

record 'n shadow_style =
  shadowColor :: color_constant
  shadowOffset :: "'n offset"
  shadowOpacity :: 'n
  shadowRadius :: 'n

text \<open>
  The argument is \<^verbatim>\<open>number | Animated.Value\<close>; the result is the empty object, a
  style of plain numbers, or a style of animated signals.
\<close>

datatype elevation = Number real | Signal animated

datatype style =
    Empty
  | Static "real shadow_style"
  | Dynamic "animated shadow_style"

definition inputRange :: "real list" where
  "inputRange = [0, 1, 2, 3, 8, 24]"

fun shadow :: "elevation \<Rightarrow> style" where
  "shadow (Signal elevation) =
     Dynamic \<lparr>
       shadowColor = SHADOW_COLOR,
       shadowOffset = \<lparr>
         width = Value 0,
         height = Interpolate elevation inputRange [0, 0.1, 0.5, 0.75, 2, 7]
       \<rparr>,
       shadowOpacity = Value SHADOW_OPACITY,
       shadowRadius = Interpolate elevation inputRange [0, 1, 2.5, 5, 12, 24]
     \<rparr>"
| "shadow (Number elevation) =
     (if elevation = 0 then Empty
      else
        let (height, radius) =
          (if elevation = 1 then (0.5, 0.75)
           else if elevation = 2 then (0.75, 1.5)
           else (elevation - 1, elevation))
        in Static \<lparr>
          shadowColor = SHADOW_COLOR,
          shadowOffset = \<lparr> width = 0, height = 0 \<rparr>,
          shadowOpacity = SHADOW_OPACITY,
          shadowRadius = radius
        \<rparr>)"

text \<open>The default argument: \<^verbatim>\<open>shadow()\<close> is \<^verbatim>\<open>shadow(0)\<close>.\<close>

definition shadow_default :: style where
  "shadow_default = shadow (Number 0)"

section \<open>Animations handed to the host framework\<close>

text \<open>
  \<^verbatim>\<open>Animated.timing(value, config)\<close>, \<^verbatim>\<open>Animated.parallel\<close> and
  \<^verbatim>\<open>Animated.stagger\<close> build a description of an animation that \<^verbatim>\<open>.start()\<close>
  hands to the framework. The description is kept as a term. The animated value a timing
  drives is named by its place in the component's state: \<open>Fade\<close> is
  \<^verbatim>\<open>this.state.fade\<close>, \<open>Backdrop\<close> is \<^verbatim>\<open>this.state.backdrop\<close> and \<open>Item i\<close>
  is the object at \<^verbatim>\<open>this.state.animations[i]\<close>.
\<close>

datatype target = Fade | Backdrop | Item nat

record timing_config =
  toValue :: real
  duration :: real
  useNativeDriver :: bool

datatype animation =
    Timing target timing_config
  | Parallel "animation list"
  | Stagger real "animation list"

text \<open>
  Modelled from the spec: when the framework starts each timing of an animation. The
  composition operators are framework code outside the sources; the spec describes
  \<^verbatim>\<open>parallel\<close> as starting its members together and \<^verbatim>\<open>stagger\<close> as a sequence
  with a fixed offset between the starts of successive members, in list order.
\<close>

fun start_offsets :: "real \<Rightarrow> animation \<Rightarrow> (target \<times> real) list"
  and parallel_offsets :: "real \<Rightarrow> animation list \<Rightarrow> (target \<times> real) list"
  and stagger_offsets :: "real \<Rightarrow> real \<Rightarrow> animation list \<Rightarrow> (target \<times> real) list"
where
  "start_offsets t (Timing tg cfg) = [(tg, t)]"
| "start_offsets t (Parallel as) = parallel_offsets t as"
| "start_offsets t (Stagger dt as) = stagger_offsets t dt as"
| "parallel_offsets t [] = []"
| "parallel_offsets t (a # as) = start_offsets t a @ parallel_offsets t as"
| "stagger_offsets t dt [] = []"
| "stagger_offsets t dt (a # as) = start_offsets t a @ stagger_offsets (t + dt) dt as"

definition start_offset_of :: "target \<Rightarrow> animation \<Rightarrow> real option" where
  "start_offset_of tg a = map_of (start_offsets 0 a) tg"

section \<open>Theme\<close>

text \<open>
  Both components are wrapped in \<^verbatim>\<open>withTheme\<close> and read
  \<^verbatim>\<open>this.props.theme.animation.scale\<close>.
\<close>

record animation_theme =
  scale :: real

record theme_record =
  animation :: animation_theme

record themed_props =
  theme :: theme_record

section \<open>CrossFadeIcon\<close>

text \<open>
  \<^verbatim>\<open>IconSource\<close> is declared in \<^verbatim>\<open>./Icon\<close>, outside the sources. An icon is a
  value of a type parameter, compared by equality where the source compares with
  \<^verbatim>\<open>===\<close>. The render tests \<^verbatim>\<open>this.state.previousIcon ? a : b\<close>, which asks for
  the JavaScript truthiness of the recorded value: \<^verbatim>\<open>undefined\<close> is falsy, and
  whether an icon value is truthy is the parameter \<open>truthy\<close> of the render. For icons
  given by name, a string is truthy unless it is empty.
\<close>

definition string_truthy :: "string \<Rightarrow> bool" where
  "string_truthy s = (s \<noteq> [])"

record 'icon CrossFadeIcon_props = themed_props +
  source :: 'icon
  color :: string
  size_prop :: real
  isOpen :: bool

record 'icon CrossFadeIcon_state =
  currentIcon :: 'icon
  previousIcon :: "'icon option"
  fade :: animated

text \<open>
  \<^verbatim>\<open>getDerivedStateFromProps\<close> returns \<^verbatim>\<open>null\<close> (here \<open>None\<close>) or the partial
  state \<^verbatim>\<open>{currentIcon, previousIcon}\<close> (here the pair), which the framework merges
  into the state.
\<close>

definition CrossFadeIcon_getDerivedStateFromProps ::
  "'icon CrossFadeIcon_props \<Rightarrow> 'icon CrossFadeIcon_state \<Rightarrow> ('icon \<times> 'icon) option" where
  "CrossFadeIcon_getDerivedStateFromProps nextProps nextState =
     (if currentIcon nextState = source nextProps then None
      else Some (source nextProps, currentIcon nextState))"

definition CrossFadeIcon_derive ::
  "'icon CrossFadeIcon_props \<Rightarrow> 'icon CrossFadeIcon_state \<Rightarrow> 'icon CrossFadeIcon_state" where
  "CrossFadeIcon_derive nextProps st =
     (case CrossFadeIcon_getDerivedStateFromProps nextProps st of
        None \<Rightarrow> st
      | Some (cur, prev) \<Rightarrow> st\<lparr>currentIcon := cur, previousIcon := Some prev\<rparr>)"

text \<open>The initial state leaves \<^verbatim>\<open>previousIcon\<close> undefined.\<close>

definition CrossFadeIcon_initial_state ::
  "'icon CrossFadeIcon_props \<Rightarrow> 'icon CrossFadeIcon_state" where
  "CrossFadeIcon_initial_state props =
     \<lparr>currentIcon = source props, previousIcon = None, fade = Value 0\<rparr>"

text \<open>
  \<^verbatim>\<open>componentDidUpdate\<close> ignores both of its arguments and starts one timing on
  \<^verbatim>\<open>this.state.fade\<close>. The result is the list of animations it starts.
\<close>

definition CrossFadeIcon_componentDidUpdate ::
  "'icon CrossFadeIcon_props \<Rightarrow> 'icon CrossFadeIcon_state \<Rightarrow>
   'icon CrossFadeIcon_props \<Rightarrow> 'icon CrossFadeIcon_state \<Rightarrow> animation list" where
  "CrossFadeIcon_componentDidUpdate this_props this_state prevProps prevState =
     [Timing Fade \<lparr>
        toValue = (if isOpen this_props then 1 else 0),
        duration = scale (animation (theme this_props)) * 200,
        useNativeDriver = False\<rparr>]"

text \<open>
  The rendered tree: a \<^verbatim>\<open>View\<close> of the given size holding one \<^verbatim>\<open>Animated.View\<close>
  with a rotation, holding the \<^verbatim>\<open>Icon\<close> elements listed in \<open>icons\<close>. The rotation
  is the string \<^verbatim>\<open>'0deg'\<close> or an interpolation whose outputs are \<^verbatim>\<open>'0deg'\<close> and
  \<^verbatim>\<open>'45deg'\<close>; angles are kept as numbers of degrees.
\<close>

datatype rotation = Deg real | Animated_deg animated

fun rotation_angle :: "rotation \<Rightarrow> real" where
  "rotation_angle (Deg d) = d"
| "rotation_angle (Animated_deg a) = current a"

record 'icon icon_element =
  icon_source :: 'icon
  icon_size :: real
  icon_color :: string

record 'icon rendered =
  content_height :: real
  content_width :: real
  rotate :: rotation
  icons :: "'icon icon_element list"

definition CrossFadeIcon_render ::
  "('icon \<Rightarrow> bool) \<Rightarrow> 'icon CrossFadeIcon_props \<Rightarrow> 'icon CrossFadeIcon_state
   \<Rightarrow> 'icon rendered" where
  "CrossFadeIcon_render truthy props st =
     (let rotateNext =
        (case previousIcon st of
           Some prev \<Rightarrow>
             if truthy prev then Animated_deg (Interpolate (fade st) [0, 1] [0, 45])
             else Deg 0
         | None \<Rightarrow> Deg 0)
      in \<lparr>content_height = size_prop props,
          content_width = size_prop props,
          rotate = rotateNext,
          icons = [\<lparr>icon_source = currentIcon st, icon_size = size_prop props,
                    icon_color = color props\<rparr>]\<rparr>)"

text \<open>
  The life of a mounted component: the framework calls
  \<^verbatim>\<open>getDerivedStateFromProps\<close> at mount and before every render, and between renders
  the running animation moves the number held by \<^verbatim>\<open>fade\<close>.
\<close>

datatype 'icon event =
    Rerender "'icon CrossFadeIcon_props"
  | Progress real

definition mount :: "'icon CrossFadeIcon_props \<Rightarrow> 'icon CrossFadeIcon_state" where
  "mount props = CrossFadeIcon_derive props (CrossFadeIcon_initial_state props)"

fun step :: "'icon event \<Rightarrow> 'icon CrossFadeIcon_state \<Rightarrow> 'icon CrossFadeIcon_state" where
  "step (Rerender props) st = CrossFadeIcon_derive props st"
| "step (Progress v) st = st\<lparr>fade := Value v\<rparr>"

fun run :: "'icon event list \<Rightarrow> 'icon CrossFadeIcon_state \<Rightarrow> 'icon CrossFadeIcon_state" where
  "run [] st = st"
| "run (e # es) st = run es (step e st)"

text \<open>The icons supplied by a run of events, oldest first.\<close>

fun supplied :: "'icon event list \<Rightarrow> 'icon list" where
  "supplied [] = []"
| "supplied (Rerender props # es) = source props # supplied es"
| "supplied (Progress v # es) = supplied es"

section \<open>FAB.Group\<close>

text \<open>
  What the group can observe of a callback it is given: the state changes the callback
  itself requests through \<^verbatim>\<open>onStateChange\<close> while it runs, and whether it returns or
  throws. A callback that starts asynchronous work returns.
\<close>

record callback =
  requests :: "bool list"
  throws :: bool

text \<open>
  An action item. Its other fields (\<^verbatim>\<open>svg\<close>, \<^verbatim>\<open>isPrimary\<close>, \<^verbatim>\<open>isLoading\<close>,
  \<^verbatim>\<open>size\<close>, \<^verbatim>\<open>textColor\<close>, \<^verbatim>\<open>disabled\<close>) are passed to the button unchanged.
\<close>

record action =
  text_prop :: string
  onPress :: callback

record FABGroup_props = themed_props +
  actions :: "action list"
  open_prop :: bool

record FABGroup_state =
  backdrop :: animated
  animations :: "animated list"

text \<open>
  \<^verbatim>\<open>prevState.animations[i] || new Animated.Value(...)\<close>: an index past the end reads
  \<^verbatim>\<open>undefined\<close>, and an \<^verbatim>\<open>Animated.Value\<close> object is truthy. The function returns
  the partial state \<^verbatim>\<open>{animations}\<close>.
\<close>

definition FABGroup_getDerivedStateFromProps ::
  "FABGroup_props \<Rightarrow> FABGroup_state \<Rightarrow> animated list" where
  "FABGroup_getDerivedStateFromProps nextProps prevState =
     map (\<lambda>i. if i < length (animations prevState) then animations prevState ! i
               else Value (if open_prop nextProps then 1 else 0))
         [0 ..< length (actions nextProps)]"

definition FABGroup_derive :: "FABGroup_props \<Rightarrow> FABGroup_state \<Rightarrow> FABGroup_state" where
  "FABGroup_derive nextProps prevState =
     prevState\<lparr>animations := FABGroup_getDerivedStateFromProps nextProps prevState\<rparr>"

definition FABGroup_initial_state :: FABGroup_state where
  "FABGroup_initial_state = \<lparr>backdrop = Value 0, animations = []\<rparr>"

text \<open>
  \<^verbatim>\<open>componentDidUpdate\<close> returns early (\<open>None\<close>) when \<^verbatim>\<open>open\<close> did not change,
  and otherwise starts one animation.
\<close>

definition FABGroup_componentDidUpdate ::
  "FABGroup_props \<Rightarrow> FABGroup_state \<Rightarrow> FABGroup_props \<Rightarrow> animation option" where
  "FABGroup_componentDidUpdate this_props this_state prevProps =
     (if open_prop this_props = open_prop prevProps then None
      else
        let scale = scale (animation (theme this_props)) in
        if open_prop this_props then
          Some (Parallel [
            Timing Backdrop \<lparr>toValue = 0.32, duration = 250 * scale, useNativeDriver = True\<rparr>,
            Stagger (50 * scale)
              (rev (map (\<lambda>i. Timing (Item i)
                           \<lparr>toValue = 1, duration = 150 * scale, useNativeDriver = True\<rparr>)
                        [0 ..< length (animations this_state)]))])
        else
          Some (Parallel [
            Timing Backdrop \<lparr>toValue = 0, duration = 200 * scale, useNativeDriver = True\<rparr>,
            Stagger (50 * scale)
              (map (\<lambda>i. Timing (Item i)
                      \<lparr>toValue = 0, duration = 150 * scale, useNativeDriver = True\<rparr>)
                   [0 ..< length (animations this_state)])]))"

text \<open>
  The calls the group makes to the callbacks of its props are recorded in a trace, in
  order. A handler returns or lets an exception escape.
\<close>

datatype call = OnPress nat | OnStateChange bool

datatype completion = Returned | Threw

definition invoke :: "nat \<Rightarrow> callback \<Rightarrow> call list \<Rightarrow> completion \<times> call list" where
  "invoke i cb tr =
     (if throws cb then Threw else Returned,
      tr @ [OnPress i] @ map OnStateChange (requests cb))"

definition close :: "FABGroup_props \<Rightarrow> call list \<Rightarrow> completion \<times> call list" where
  "close props tr = (Returned, tr @ [OnStateChange False])"

definition toggle :: "FABGroup_props \<Rightarrow> call list \<Rightarrow> completion \<times> call list" where
  "toggle props tr = (Returned, tr @ [OnStateChange (\<not> open_prop props)])"

text \<open>
  The handler the render gives the button of action \<open>i\<close>:
  \<^verbatim>\<open>() => { it.onPress(); this.close() }\<close>. An exception of the first statement
  skips the second.
\<close>

definition button_onPress ::
  "FABGroup_props \<Rightarrow> nat \<Rightarrow> action \<Rightarrow> call list \<Rightarrow> completion \<times> call list" where
  "button_onPress props i it tr =
     (case invoke i (onPress it) tr of
        (Threw, tr') \<Rightarrow> (Threw, tr')
      | (Returned, tr') \<Rightarrow> close props tr')"

definition button_handlers ::
  "FABGroup_props \<Rightarrow> (call list \<Rightarrow> completion \<times> call list) list" where
  "button_handlers props =
     map (\<lambda>i. button_onPress props i (actions props ! i)) [0 ..< length (actions props)]"

text \<open>The close requests in a trace.\<close>

definition close_requests :: "call list \<Rightarrow> nat" where
  "close_requests tr = length (filter (\<lambda>c. c = OnStateChange False) tr)"

section \<open>Static shadows\<close>

text \<open>
  C1. The spec gives the static style an elevation-dependent offset height: 0.5 at
  elevation 1, 0.75 at elevation 2, \<open>elevation - 1\<close> from 3 on. The function computes
  exactly these heights in its \<^verbatim>\<open>switch\<close> and then returns the literal height 0: at
  elevations 1, 2 and 10 the returned style has the radius, opacity, colour and offset
  width of the spec, and offset height 0 where the spec says 0.5, 0.75 and 9.
\<close>

theorem shadow_static_height_dropped:
  "shadow (Number 1) = Static \<lparr> shadowColor = Colors_black,
       shadowOffset = \<lparr> width = 0, height = 0 \<rparr>, shadowOpacity = 0.35, shadowRadius = 0.75 \<rparr>
   \<and> shadow (Number 2) = Static \<lparr> shadowColor = Colors_black,
       shadowOffset = \<lparr> width = 0, height = 0 \<rparr>, shadowOpacity = 0.35, shadowRadius = 1.5 \<rparr>
   \<and> shadow (Number 10) = Static \<lparr> shadowColor = Colors_black,
       shadowOffset = \<lparr> width = 0, height = 0 \<rparr>, shadowOpacity = 0.35, shadowRadius = 10 \<rparr>
   \<and> shadow (Number 0) = Empty"
  by (simp add: SHADOW_COLOR_def SHADOW_OPACITY_def)

text \<open>
  C2. For every non-zero constant elevation the returned style has the offset
  \<open>{width: 0, height: 0}\<close>: the height computed from the elevation is not part of the
  result.
\<close>

theorem shadow_static_offset_zero:
  "elevation \<noteq> 0 \<Longrightarrow>
     \<exists>s. shadow (Number elevation) = Static s \<and> shadowOffset s = \<lparr> width = 0, height = 0 \<rparr>"
  by (simp add: Let_def split: prod.splits)

theorem shadow_static_offset_zero_witness:
  "(7::real) \<noteq> 0 \<and>
     (\<exists>s. shadow (Number 7) = Static s \<and> shadowOffset s = \<lparr> width = 0, height = 0 \<rparr>)"
  using shadow_static_offset_zero [of 7] by simp

section \<open>Dynamic shadows\<close>

text \<open>
  C4, as the spec states it: the interpolated height and radius are clamped at the ends
  of the table. It fails: the calls pass no \<^verbatim>\<open>extrapolate\<close> option, so beyond the
  table the end segments are continued. At input 30 the height is 8.875 and the radius
  28.5, not 7 and 24; at input -1 they are -0.1 and -1, not 0 and 0.
\<close>

theorem shadow_dynamic_not_clamped_counterexample:
  "shadow (Signal (Value 30)) =
     Dynamic \<lparr>shadowColor = Colors_black,
       shadowOffset = \<lparr>width = Value 0, height = Interpolate (Value 30) [0, 1, 2, 3, 8, 24] [0, 0.1, 0.5, 0.75, 2, 7]\<rparr>,
       shadowOpacity = Value 0.35,
       shadowRadius = Interpolate (Value 30) [0, 1, 2, 3, 8, 24] [0, 1, 2.5, 5, 12, 24]\<rparr>
   \<and> current (Interpolate (Value 30) [0, 1, 2, 3, 8, 24] [0, 0.1, 0.5, 0.75, 2, 7]) = 8.875
   \<and> current (Interpolate (Value 30) [0, 1, 2, 3, 8, 24] [0, 0.1, 0.5, 0.75, 2, 7]) \<noteq> 7
   \<and> current (Interpolate (Value 30) [0, 1, 2, 3, 8, 24] [0, 1, 2.5, 5, 12, 24]) = 28.5
   \<and> current (Interpolate (Value 30) [0, 1, 2, 3, 8, 24] [0, 1, 2.5, 5, 12, 24]) \<noteq> 24
   \<and> current (Interpolate (Value (- 1)) [0, 1, 2, 3, 8, 24] [0, 0.1, 0.5, 0.75, 2, 7]) = - 0.1
   \<and> current (Interpolate (Value (- 1)) [0, 1, 2, 3, 8, 24] [0, 1, 2.5, 5, 12, 24]) = - 1"
  by (simp add: SHADOW_COLOR_def SHADOW_OPACITY_def inputRange_def)

text \<open>
  C4, amended. For a signal as elevation the style holds the colour constant, offset
  width 0 and opacity 0.35 (both wrapped as signals), and offset height and radius
  interpolated from the signal over the breakpoints 0, 1, 2, 3, 8, 24, with height outputs
  0, 0.1, 0.5, 0.75, 2, 7 and radius outputs 0, 1, 2.5, 5, 12, 24: each breakpoint gives its
  output, the value is linear between neighbouring breakpoints, and below 0 and above 24
  the first and the last segment are continued, not clamped. At input 8 the height is 2
  and the radius 12; at input 16 the height lies strictly between 2 and 7 and the radius
  strictly between 12 and 24.
\<close>

theorem shadow_dynamic_interpolated:
  "\<exists>d. shadow (Signal s) = Dynamic d
     \<and> shadowColor d = Colors_black
     \<and> width (shadowOffset d) = Value 0
     \<and> shadowOpacity d = Value 0.35 \<and> current (shadowOpacity d) = 0.35
     \<and> height (shadowOffset d) = Interpolate s [0, 1, 2, 3, 8, 24] [0, 0.1, 0.5, 0.75, 2, 7]
     \<and> shadowRadius d = Interpolate s [0, 1, 2, 3, 8, 24] [0, 1, 2.5, 5, 12, 24]
     \<and> map (interpolate [0, 1, 2, 3, 8, 24] [0, 0.1, 0.5, 0.75, 2, 7]) [0, 1, 2, 3, 8, 24] = [0, 0.1, 0.5, 0.75, 2, 7]
     \<and> map (interpolate [0, 1, 2, 3, 8, 24] [0, 1, 2.5, 5, 12, 24]) [0, 1, 2, 3, 8, 24] = [0, 1, 2.5, 5, 12, 24]
     \<and> current (height (shadowOffset d)) =
         (if current s \<le> 1 then 0 + (current s - 0) * (0.1 - 0) / (1 - 0)
          else if current s \<le> 2 then 0.1 + (current s - 1) * (0.5 - 0.1) / (2 - 1)
          else if current s \<le> 3 then 0.5 + (current s - 2) * (0.75 - 0.5) / (3 - 2)
          else if current s \<le> 8 then 0.75 + (current s - 3) * (2 - 0.75) / (8 - 3)
          else 2 + (current s - 8) * (7 - 2) / (24 - 8))
     \<and> current (shadowRadius d) =
         (if current s \<le> 1 then 0 + (current s - 0) * (1 - 0) / (1 - 0)
          else if current s \<le> 2 then 1 + (current s - 1) * (2.5 - 1) / (2 - 1)
          else if current s \<le> 3 then 2.5 + (current s - 2) * (5 - 2.5) / (3 - 2)
          else if current s \<le> 8 then 5 + (current s - 3) * (12 - 5) / (8 - 3)
          else 12 + (current s - 8) * (24 - 12) / (24 - 8))
     \<and> (current s < 0 \<longrightarrow>
          current (height (shadowOffset d)) = 0.1 * current s
          \<and> current (shadowRadius d) = current s)
     \<and> (24 < current s \<longrightarrow>
          current (height (shadowOffset d)) = 7 + (current s - 24) * (5 / 16)
          \<and> current (shadowRadius d) = 24 + (current s - 24) * (12 / 16))
     \<and> (current s = 8 \<longrightarrow>
          current (height (shadowOffset d)) = 2 \<and> current (shadowRadius d) = 12)
     \<and> (current s = 16 \<longrightarrow>
          2 < current (height (shadowOffset d)) \<and> current (height (shadowOffset d)) < 7
          \<and> 12 < current (shadowRadius d) \<and> current (shadowRadius d) < 24)"
proof -
  let ?h = "current (Interpolate s [0, 1, 2, 3, 8, 24] [0, 0.1, 0.5, 0.75, 2, 7])"
  let ?r = "current (Interpolate s [0, 1, 2, 3, 8, 24] [0, 1, 2.5, 5, 12, 24])"
  have below: "?h = 0.1 * current s \<and> ?r = current s" if "current s < 0"
    using that by simp
  have above: "?h = 7 + (current s - 24) * (5 / 16) \<and> ?r = 24 + (current s - 24) * (12 / 16)"
    if "24 < current s"
    using that by (simp add: field_simps)
  show ?thesis
    using below above
    by (simp add: SHADOW_COLOR_def SHADOW_OPACITY_def inputRange_def)
qed

theorem shadow_dynamic_interpolated_witness:
  "current (Value 16) = 16
   \<and> (\<exists>d. shadow (Signal (Value 16)) = Dynamic d
        \<and> current (height (shadowOffset d)) = 4.5 \<and> current (shadowRadius d) = 18
        \<and> 2 < current (height (shadowOffset d)) \<and> current (height (shadowOffset d)) < 7
        \<and> 12 < current (shadowRadius d) \<and> current (shadowRadius d) < 24)
   \<and> 24 < current (Value 40)
   \<and> (\<exists>d. shadow (Signal (Value 40)) = Dynamic d
        \<and> current (height (shadowOffset d)) = 12 \<and> current (shadowRadius d) = 36)
   \<and> current (Value (- 2)) < 0
   \<and> (\<exists>d. shadow (Signal (Value (- 2))) = Dynamic d
        \<and> current (height (shadowOffset d)) = - 0.2 \<and> current (shadowRadius d) = - 2)"
  using shadow_dynamic_interpolated [of "Value 16"]
        shadow_dynamic_interpolated [of "Value 40"]
        shadow_dynamic_interpolated [of "Value (- 2)"]
  by auto

section \<open>CrossFadeIcon: icon changes\<close>

lemma run_append: "run (es @ es') st = run es' (run es st)"
  by (induction es arbitrary: st) simp_all

lemma supplied_append: "supplied (es @ es') = supplied es @ supplied es'"
  by (induction es rule: supplied.induct) simp_all

lemma run_currentIcon:
  "currentIcon (run es st) = last (currentIcon st # supplied es)"
proof (induction es arbitrary: st)
  case Nil
  show ?case by simp
next
  case (Cons e es)
  show ?case
  proof (cases e)
    case (Rerender props)
    then show ?thesis
      using Cons.IH [of "CrossFadeIcon_derive props st"]
      by (simp add: CrossFadeIcon_derive_def CrossFadeIcon_getDerivedStateFromProps_def)
  next
    case (Progress v)
    then show ?thesis using Cons.IH [of "st\<lparr>fade := Value v\<rparr>"] by simp
  qed
qed

text \<open>
  The icon recorded as previous is the latest supplied icon that differs from the current
  one: the first element left when the icons equal to the current one are dropped from
  the front of the history read backwards.
\<close>

lemma run_previousIcon:
  "previousIcon (run es st) =
     (case dropWhile (\<lambda>x. x = last (currentIcon st # supplied es))
             (rev (currentIcon st # supplied es)) of
        [] \<Rightarrow> previousIcon st
      | p # ps \<Rightarrow> Some p)"
proof (induction es rule: rev_induct)
  case Nil
  show ?case by simp
next
  case (snoc e es)
  let ?xs = "currentIcon st # supplied es"
  have cur: "currentIcon (run es st) = last ?xs" by (rule run_currentIcon)
  have revxs: "rev ?xs = last ?xs # rev (butlast ?xs)"
    by (metis append_butlast_last_id list.distinct(1) rev.simps(2) rev_swap)
  show ?case
  proof (cases e)
    case (Progress v)
    then show ?thesis using snoc.IH by (simp add: run_append supplied_append)
  next
    case (Rerender props)
    show ?thesis
    proof (cases "source props = last ?xs")
      case True
      have "run (es @ [e]) st = run es st"
        using Rerender True cur
        by (simp add: run_append CrossFadeIcon_derive_def
            CrossFadeIcon_getDerivedStateFromProps_def)
      moreover have "dropWhile (\<lambda>x. x = source props) (rev (?xs @ [source props]))
          = dropWhile (\<lambda>x. x = last ?xs) (rev ?xs)"
        using True by simp
      ultimately show ?thesis
        using Rerender snoc.IH by (simp add: supplied_append)
    next
      case False
      have "previousIcon (run (es @ [e]) st) = Some (last ?xs)"
        using Rerender False cur
        by (simp add: run_append CrossFadeIcon_derive_def
            CrossFadeIcon_getDerivedStateFromProps_def)
      moreover have "dropWhile (\<lambda>x. x = source props) (rev (?xs @ [source props]))
          = last ?xs # rev (butlast ?xs)"
        using False revxs by simp
      ultimately show ?thesis
        using Rerender by (simp add: supplied_append)
    qed
  qed
qed

lemma mount_state: "mount p0 = CrossFadeIcon_initial_state p0"
  by (simp add: mount_def CrossFadeIcon_derive_def CrossFadeIcon_getDerivedStateFromProps_def
      CrossFadeIcon_initial_state_def)

lemma dropWhile_all_equal:
  assumes "\<forall>s \<in> set xs. s = c"
  shows "dropWhile (\<lambda>x. x = last (c # xs)) (rev (c # xs)) = []"
proof -
  have "last (c # xs) = c"
    using assms by (cases "xs = []") simp_all
  then show ?thesis
    using assms by simp
qed

text \<open>
  C3, as the spec states it: whenever the last two supplied icons are equal, the rotation
  is fixed at 0 degrees. It fails: a component mounted with the icon \<open>plus\<close> is given
  \<open>close\<close> with \<open>isOpen\<close>, the animation runs to its end, and \<open>close\<close> is supplied
  again. The last two icons are equal, \<open>plus\<close> is still recorded as the previous icon,
  and the render rotates the icon by 45 degrees.
\<close>

theorem rotation_after_equal_icons_counterexample:
  "source \<lparr>theme = \<lparr>animation = \<lparr>scale = 1\<rparr>\<rparr>, source = ''plus'', color = ''white'',
           size_prop = 24, isOpen = False\<rparr>
     # supplied
        [Rerender \<lparr>theme = \<lparr>animation = \<lparr>scale = 1\<rparr>\<rparr>, source = ''close'', color = ''white'',
           size_prop = 24, isOpen = True\<rparr>,
         Progress 1,
         Rerender \<lparr>theme = \<lparr>animation = \<lparr>scale = 1\<rparr>\<rparr>, source = ''close'', color = ''white'',
           size_prop = 24, isOpen = True\<rparr>]
     = [''plus'', ''close'', ''close'']
   \<and> rotate (CrossFadeIcon_render string_truthy
        \<lparr>theme = \<lparr>animation = \<lparr>scale = 1\<rparr>\<rparr>, source = ''close'', color = ''white'',
           size_prop = 24, isOpen = True\<rparr>
        (run [Rerender \<lparr>theme = \<lparr>animation = \<lparr>scale = 1\<rparr>\<rparr>, source = ''close'', color = ''white'',
           size_prop = 24, isOpen = True\<rparr>,
              Progress 1,
              Rerender \<lparr>theme = \<lparr>animation = \<lparr>scale = 1\<rparr>\<rparr>, source = ''close'', color = ''white'',
           size_prop = 24, isOpen = True\<rparr>]
          (mount \<lparr>theme = \<lparr>animation = \<lparr>scale = 1\<rparr>\<rparr>, source = ''plus'', color = ''white'',
           size_prop = 24, isOpen = False\<rparr>)))
     \<noteq> Deg 0
   \<and> rotation_angle (rotate (CrossFadeIcon_render string_truthy
        \<lparr>theme = \<lparr>animation = \<lparr>scale = 1\<rparr>\<rparr>, source = ''close'', color = ''white'',
           size_prop = 24, isOpen = True\<rparr>
        (run [Rerender \<lparr>theme = \<lparr>animation = \<lparr>scale = 1\<rparr>\<rparr>, source = ''close'', color = ''white'',
           size_prop = 24, isOpen = True\<rparr>,
              Progress 1,
              Rerender \<lparr>theme = \<lparr>animation = \<lparr>scale = 1\<rparr>\<rparr>, source = ''close'', color = ''white'',
           size_prop = 24, isOpen = True\<rparr>]
          (mount \<lparr>theme = \<lparr>animation = \<lparr>scale = 1\<rparr>\<rparr>, source = ''plus'', color = ''white'',
           size_prop = 24, isOpen = False\<rparr>))))
     = 45"
  by (simp add: mount_def CrossFadeIcon_derive_def CrossFadeIcon_getDerivedStateFromProps_def
      CrossFadeIcon_initial_state_def CrossFadeIcon_render_def string_truthy_def)

text \<open>
  C3, amended. After any run of renders and animation progress, the one icon rendered is
  the most recently supplied one. As long as every supplied icon has been equal to the one
  the component was mounted with, the rotation is the fixed \<open>0deg\<close>. Once a supplied
  icon has differed, the latest supplied icon that differs from the current one stays
  recorded as the previous icon, whether or not the last two supplied icons are equal, and
  on every render the rotation is the interpolation of the progress value if that icon is
  a truthy value and the fixed \<open>0deg\<close> if it is falsy.
\<close>

theorem render_shows_latest_icon:
  "map icon_source (icons (CrossFadeIcon_render truthy props (run es (mount p0))))
     = [last (source p0 # supplied es)]
   \<and> rotate (CrossFadeIcon_render truthy props (run es (mount p0))) =
       (case dropWhile (\<lambda>x. x = last (source p0 # supplied es))
               (rev (source p0 # supplied es)) of
          [] \<Rightarrow> Deg 0
        | prev # older \<Rightarrow>
            if truthy prev
            then Animated_deg (Interpolate (fade (run es (mount p0))) [0, 1] [0, 45])
            else Deg 0)
   \<and> ((\<forall>s \<in> set (supplied es). s = source p0) \<longrightarrow>
        rotate (CrossFadeIcon_render truthy props (run es (mount p0))) = Deg 0)
   \<and> ((\<exists>s \<in> set (supplied es). s \<noteq> source p0) \<longrightarrow>
        (\<exists>prev. previousIcon (run es (mount p0)) = Some prev
           \<and> prev \<noteq> last (source p0 # supplied es)
           \<and> rotate (CrossFadeIcon_render truthy props (run es (mount p0))) =
               (if truthy prev
                then Animated_deg (Interpolate (fade (run es (mount p0))) [0, 1] [0, 45])
                else Deg 0)))"
proof -
  define st where "st = run es (mount p0)"
  define xs where "xs = source p0 # supplied es"
  define d where "d = dropWhile (\<lambda>x. x = last xs) (rev xs)"
  define r where "r = rotate (CrossFadeIcon_render truthy props st)"
  have m1: "currentIcon (mount p0) = source p0"
    by (simp add: mount_state CrossFadeIcon_initial_state_def)
  have m2: "previousIcon (mount p0) = None"
    by (simp add: mount_state CrossFadeIcon_initial_state_def)
  have cur: "currentIcon st = last xs"
    unfolding st_def xs_def by (simp only: run_currentIcon m1)
  have prev: "previousIcon st = (case d of [] \<Rightarrow> None | p # ps \<Rightarrow> Some p)"
    unfolding st_def xs_def d_def by (simp only: run_previousIcon m1 m2)
  have same: "d = []" if "\<forall>s \<in> set (supplied es). s = source p0"
    unfolding d_def xs_def using that by (rule dropWhile_all_equal)
  have differ: "\<exists>p ps. d = p # ps \<and> p \<noteq> last xs"
    if "\<exists>s \<in> set (supplied es). s \<noteq> source p0"
  proof -
    have "\<exists>x \<in> set xs. x \<noteq> last xs"
    proof (cases "last xs = source p0")
      case True
      then show ?thesis using that by (auto simp add: xs_def)
    next
      case False
      then show ?thesis by (auto simp add: xs_def)
    qed
    then have "d \<noteq> []" by (simp add: d_def)
    then obtain p ps where dd: "d = p # ps" by (cases d) auto
    then have "p \<noteq> last xs"
      using hd_dropWhile [of "\<lambda>x. x = last xs" "rev xs"] by (simp add: d_def)
    with dd show ?thesis by blast
  qed
  have one: "map icon_source (icons (CrossFadeIcon_render truthy props st)) = [last xs]"
    using cur by (simp add: CrossFadeIcon_render_def)
  have two: "r =
       (case d of [] \<Rightarrow> Deg 0
        | prev # older \<Rightarrow>
            if truthy prev then Animated_deg (Interpolate (fade st) [0, 1] [0, 45])
            else Deg 0)"
    using prev by (cases d) (simp_all add: r_def CrossFadeIcon_render_def)
  have three: "r = Deg 0" if "\<forall>s \<in> set (supplied es). s = source p0"
    using two same [OF that] by simp
  have four: "\<exists>prev. previousIcon st = Some prev \<and> prev \<noteq> last xs
           \<and> r = (if truthy prev then Animated_deg (Interpolate (fade st) [0, 1] [0, 45])
                  else Deg 0)"
    if "\<exists>s \<in> set (supplied es). s \<noteq> source p0"
  proof -
    from differ [OF that] obtain p ps where dd: "d = p # ps" and ne: "p \<noteq> last xs"
      by blast
    have "previousIcon st = Some p" using prev dd by simp
    moreover have "r =
        (if truthy p then Animated_deg (Interpolate (fade st) [0, 1] [0, 45]) else Deg 0)"
      using two dd by simp
    ultimately show ?thesis using ne by blast
  qed
  have "map icon_source (icons (CrossFadeIcon_render truthy props st)) = [last xs]
      \<and> r = (case d of [] \<Rightarrow> Deg 0
        | prev # older \<Rightarrow>
            if truthy prev then Animated_deg (Interpolate (fade st) [0, 1] [0, 45])
            else Deg 0)
      \<and> ((\<forall>s \<in> set (supplied es). s = source p0) \<longrightarrow> r = Deg 0)
      \<and> ((\<exists>s \<in> set (supplied es). s \<noteq> source p0) \<longrightarrow>
          (\<exists>prev. previousIcon st = Some prev \<and> prev \<noteq> last xs
             \<and> r = (if truthy prev then Animated_deg (Interpolate (fade st) [0, 1] [0, 45])
                    else Deg 0)))"
    using one two three four by blast
  then show ?thesis
    unfolding r_def d_def xs_def st_def .
qed

theorem render_shows_latest_icon_witness:
  "map icon_source (icons (CrossFadeIcon_render string_truthy
      \<lparr>theme = \<lparr>animation = \<lparr>scale = 1\<rparr>\<rparr>, source = ''close'', color = ''white'',
           size_prop = 24, isOpen = True\<rparr>
      (run [Rerender \<lparr>theme = \<lparr>animation = \<lparr>scale = 1\<rparr>\<rparr>, source = ''close'', color = ''white'',
           size_prop = 24, isOpen = True\<rparr>, Progress 1, Rerender \<lparr>theme = \<lparr>animation = \<lparr>scale = 1\<rparr>\<rparr>, source = ''close'', color = ''white'',
           size_prop = 24, isOpen = True\<rparr>]
        (mount \<lparr>theme = \<lparr>animation = \<lparr>scale = 1\<rparr>\<rparr>, source = ''plus'', color = ''white'',
           size_prop = 24, isOpen = False\<rparr>))))
     = [''close'']
   \<and> rotate (CrossFadeIcon_render string_truthy
      \<lparr>theme = \<lparr>animation = \<lparr>scale = 1\<rparr>\<rparr>, source = ''close'', color = ''white'',
           size_prop = 24, isOpen = True\<rparr>
      (run [Rerender \<lparr>theme = \<lparr>animation = \<lparr>scale = 1\<rparr>\<rparr>, source = ''close'', color = ''white'',
           size_prop = 24, isOpen = True\<rparr>, Progress 1, Rerender \<lparr>theme = \<lparr>animation = \<lparr>scale = 1\<rparr>\<rparr>, source = ''close'', color = ''white'',
           size_prop = 24, isOpen = True\<rparr>]
        (mount \<lparr>theme = \<lparr>animation = \<lparr>scale = 1\<rparr>\<rparr>, source = ''plus'', color = ''white'',
           size_prop = 24, isOpen = False\<rparr>)))
     = Animated_deg (Interpolate (Value 1) [0, 1] [0, 45])
   \<and> rotate (CrossFadeIcon_render string_truthy
      \<lparr>theme = \<lparr>animation = \<lparr>scale = 1\<rparr>\<rparr>, source = ''close'', color = ''white'',
           size_prop = 24, isOpen = True\<rparr>
      (run [Rerender \<lparr>theme = \<lparr>animation = \<lparr>scale = 1\<rparr>\<rparr>, source = ''close'', color = ''white'',
           size_prop = 24, isOpen = True\<rparr>]
        (mount \<lparr>theme = \<lparr>animation = \<lparr>scale = 1\<rparr>\<rparr>, source = [], color = ''white'',
           size_prop = 24, isOpen = False\<rparr>)))
     = Deg 0
   \<and> rotate (CrossFadeIcon_render string_truthy
      \<lparr>theme = \<lparr>animation = \<lparr>scale = 1\<rparr>\<rparr>, source = ''plus'', color = ''white'',
           size_prop = 24, isOpen = False\<rparr>
      (run [Progress 1, Rerender \<lparr>theme = \<lparr>animation = \<lparr>scale = 1\<rparr>\<rparr>, source = ''plus'', color = ''white'',
           size_prop = 24, isOpen = False\<rparr>]
        (mount \<lparr>theme = \<lparr>animation = \<lparr>scale = 1\<rparr>\<rparr>, source = ''plus'', color = ''white'',
           size_prop = 24, isOpen = False\<rparr>)))
     = Deg 0"
  using render_shows_latest_icon
    [of string_truthy "\<lparr>theme = \<lparr>animation = \<lparr>scale = 1\<rparr>\<rparr>, source = ''close'', color = ''white'',
           size_prop = 24, isOpen = True\<rparr>"
        "[Rerender \<lparr>theme = \<lparr>animation = \<lparr>scale = 1\<rparr>\<rparr>, source = ''close'', color = ''white'',
           size_prop = 24, isOpen = True\<rparr>, Progress 1, Rerender \<lparr>theme = \<lparr>animation = \<lparr>scale = 1\<rparr>\<rparr>, source = ''close'', color = ''white'',
           size_prop = 24, isOpen = True\<rparr>]"
        "\<lparr>theme = \<lparr>animation = \<lparr>scale = 1\<rparr>\<rparr>, source = ''plus'', color = ''white'',
           size_prop = 24, isOpen = False\<rparr>"]
    render_shows_latest_icon
    [of string_truthy "\<lparr>theme = \<lparr>animation = \<lparr>scale = 1\<rparr>\<rparr>, source = ''close'', color = ''white'',
           size_prop = 24, isOpen = True\<rparr>"
        "[Rerender \<lparr>theme = \<lparr>animation = \<lparr>scale = 1\<rparr>\<rparr>, source = ''close'', color = ''white'',
           size_prop = 24, isOpen = True\<rparr>]"
        "\<lparr>theme = \<lparr>animation = \<lparr>scale = 1\<rparr>\<rparr>, source = [], color = ''white'',
           size_prop = 24, isOpen = False\<rparr>"]
    render_shows_latest_icon
    [of string_truthy "\<lparr>theme = \<lparr>animation = \<lparr>scale = 1\<rparr>\<rparr>, source = ''plus'', color = ''white'',
           size_prop = 24, isOpen = False\<rparr>"
        "[Progress 1, Rerender \<lparr>theme = \<lparr>animation = \<lparr>scale = 1\<rparr>\<rparr>, source = ''plus'', color = ''white'',
           size_prop = 24, isOpen = False\<rparr>]"
        "\<lparr>theme = \<lparr>animation = \<lparr>scale = 1\<rparr>\<rparr>, source = ''plus'', color = ''white'',
           size_prop = 24, isOpen = False\<rparr>"]
  by (simp add: mount_def CrossFadeIcon_derive_def CrossFadeIcon_getDerivedStateFromProps_def
      CrossFadeIcon_initial_state_def string_truthy_def)

section \<open>CrossFadeIcon: animation and rendering\<close>

text \<open>
  C9. Every update of the component, and so every update in which the state changed,
  starts exactly one timing on the progress value, toward 1 if \<open>isOpen\<close> holds and
  toward 0 otherwise, lasting 200 times the theme's animation scale.
\<close>

theorem update_starts_one_timing:
  "CrossFadeIcon_componentDidUpdate this_props this_state prevProps prevState =
     [Timing Fade \<lparr>toValue = (if isOpen this_props then 1 else 0),
                   duration = 200 * scale (animation (theme this_props)),
                   useNativeDriver = False\<rparr>]
   \<and> length (CrossFadeIcon_componentDidUpdate this_props this_state prevProps prevState) = 1"
  by (simp add: CrossFadeIcon_componentDidUpdate_def)

text \<open>
  C10, as the spec states it: whenever a previous icon exists, the rotation is the
  interpolation of the progress value. It fails: a component mounted with the empty
  string as icon and then given \<open>close\<close> records the empty string as previous icon; the
  render's test of that value is false, and with the progress at 1 the rotation is the
  constant 0 degrees where the interpolation gives 45.
\<close>

theorem falsy_previous_icon_counterexample:
  "previousIcon (run [Rerender \<lparr>theme = \<lparr>animation = \<lparr>scale = 1\<rparr>\<rparr>, source = ''close'', color = ''white'',
           size_prop = 24, isOpen = True\<rparr>, Progress 1] (mount \<lparr>theme = \<lparr>animation = \<lparr>scale = 1\<rparr>\<rparr>, source = [], color = ''white'',
           size_prop = 24, isOpen = False\<rparr>)) = Some []
   \<and> rotate (CrossFadeIcon_render string_truthy \<lparr>theme = \<lparr>animation = \<lparr>scale = 1\<rparr>\<rparr>, source = ''close'', color = ''white'',
           size_prop = 24, isOpen = True\<rparr>
        (run [Rerender \<lparr>theme = \<lparr>animation = \<lparr>scale = 1\<rparr>\<rparr>, source = ''close'', color = ''white'',
           size_prop = 24, isOpen = True\<rparr>, Progress 1] (mount \<lparr>theme = \<lparr>animation = \<lparr>scale = 1\<rparr>\<rparr>, source = [], color = ''white'',
           size_prop = 24, isOpen = False\<rparr>))) = Deg 0
   \<and> rotation_angle (rotate (CrossFadeIcon_render string_truthy \<lparr>theme = \<lparr>animation = \<lparr>scale = 1\<rparr>\<rparr>, source = ''close'', color = ''white'',
           size_prop = 24, isOpen = True\<rparr>
        (run [Rerender \<lparr>theme = \<lparr>animation = \<lparr>scale = 1\<rparr>\<rparr>, source = ''close'', color = ''white'',
           size_prop = 24, isOpen = True\<rparr>, Progress 1] (mount \<lparr>theme = \<lparr>animation = \<lparr>scale = 1\<rparr>\<rparr>, source = [], color = ''white'',
           size_prop = 24, isOpen = False\<rparr>)))) = 0
   \<and> current (Interpolate (fade (run [Rerender \<lparr>theme = \<lparr>animation = \<lparr>scale = 1\<rparr>\<rparr>, source = ''close'', color = ''white'',
           size_prop = 24, isOpen = True\<rparr>, Progress 1] (mount \<lparr>theme = \<lparr>animation = \<lparr>scale = 1\<rparr>\<rparr>, source = [], color = ''white'',
           size_prop = 24, isOpen = False\<rparr>))) [0, 1] [0, 45])
       = 45"
  by (simp add: mount_def CrossFadeIcon_derive_def CrossFadeIcon_getDerivedStateFromProps_def
      CrossFadeIcon_initial_state_def CrossFadeIcon_render_def string_truthy_def)

text \<open>
  C10, amended. With a previous icon recorded that is a truthy value, the rotation is the
  interpolation of the progress value from the range 0..1 to 0..45 degrees, which is 45
  degrees times the progress. With no previous icon recorded, or with one that is a falsy
  value, the rotation is the constant 0 degrees. Either way the one icon rendered is the
  current icon.
\<close>

theorem render_rotation:
  "(previousIcon st = Some prev \<and> truthy prev \<longrightarrow>
      rotate (CrossFadeIcon_render truthy props st)
        = Animated_deg (Interpolate (fade st) [0, 1] [0, 45])
      \<and> interpolate [0, 1] [0, 45] 0 = 0
      \<and> interpolate [0, 1] [0, 45] 1 = 45
      \<and> rotation_angle (rotate (CrossFadeIcon_render truthy props st))
          = 45 * current (fade st))
   \<and> (previousIcon st = Some prev \<and> \<not> truthy prev \<longrightarrow>
        rotate (CrossFadeIcon_render truthy props st) = Deg 0
        \<and> rotation_angle (rotate (CrossFadeIcon_render truthy props st)) = 0)
   \<and> (previousIcon st = None \<longrightarrow>
        rotate (CrossFadeIcon_render truthy props st) = Deg 0
        \<and> rotation_angle (rotate (CrossFadeIcon_render truthy props st)) = 0)
   \<and> icons (CrossFadeIcon_render truthy props st)
        = [\<lparr>icon_source = currentIcon st, icon_size = size_prop props,
            icon_color = color props\<rparr>]"
  by (simp add: CrossFadeIcon_render_def)

theorem render_rotation_witness:
  "previousIcon \<lparr>currentIcon = ''close'', previousIcon = Some ''plus'', fade = Value 0.5\<rparr> = Some ''plus'' \<and> string_truthy ''plus''
   \<and> rotation_angle (rotate (CrossFadeIcon_render string_truthy \<lparr>theme = \<lparr>animation = \<lparr>scale = 1\<rparr>\<rparr>, source = ''close'', color = ''white'',
           size_prop = 24, isOpen = True\<rparr> \<lparr>currentIcon = ''close'', previousIcon = Some ''plus'', fade = Value 0.5\<rparr>)) = 22.5
   \<and> previousIcon \<lparr>currentIcon = ''close'', previousIcon = Some [], fade = Value 0.5\<rparr> = Some [] \<and> \<not> string_truthy []
   \<and> rotate (CrossFadeIcon_render string_truthy \<lparr>theme = \<lparr>animation = \<lparr>scale = 1\<rparr>\<rparr>, source = ''close'', color = ''white'',
           size_prop = 24, isOpen = True\<rparr> \<lparr>currentIcon = ''close'', previousIcon = Some [], fade = Value 0.5\<rparr>) = Deg 0
   \<and> previousIcon (CrossFadeIcon_initial_state \<lparr>theme = \<lparr>animation = \<lparr>scale = 1\<rparr>\<rparr>, source = ''plus'', color = ''white'',
           size_prop = 24, isOpen = False\<rparr>) = None
   \<and> rotate (CrossFadeIcon_render string_truthy \<lparr>theme = \<lparr>animation = \<lparr>scale = 1\<rparr>\<rparr>, source = ''plus'', color = ''white'',
           size_prop = 24, isOpen = False\<rparr> (CrossFadeIcon_initial_state \<lparr>theme = \<lparr>animation = \<lparr>scale = 1\<rparr>\<rparr>, source = ''plus'', color = ''white'',
           size_prop = 24, isOpen = False\<rparr>)) = Deg 0"
  using render_rotation [of "\<lparr>currentIcon = ''close'', previousIcon = Some ''plus'', fade = Value 0.5\<rparr>" "''plus''" string_truthy "\<lparr>theme = \<lparr>animation = \<lparr>scale = 1\<rparr>\<rparr>, source = ''close'', color = ''white'',
           size_prop = 24, isOpen = True\<rparr>"]
    render_rotation [of "\<lparr>currentIcon = ''close'', previousIcon = Some [], fade = Value 0.5\<rparr>" "[]" string_truthy "\<lparr>theme = \<lparr>animation = \<lparr>scale = 1\<rparr>\<rparr>, source = ''close'', color = ''white'',
           size_prop = 24, isOpen = True\<rparr>"]
    render_rotation [of "CrossFadeIcon_initial_state \<lparr>theme = \<lparr>animation = \<lparr>scale = 1\<rparr>\<rparr>, source = ''plus'', color = ''white'',
           size_prop = 24, isOpen = False\<rparr>" "''plus''" string_truthy "\<lparr>theme = \<lparr>animation = \<lparr>scale = 1\<rparr>\<rparr>, source = ''plus'', color = ''white'',
           size_prop = 24, isOpen = False\<rparr>"]
  by (simp add: CrossFadeIcon_initial_state_def string_truthy_def)

section \<open>FAB.Group: per-item progress values\<close>

text \<open>
  C5. After the state is derived for a render, there is one progress value per action.
  A position that already had a progress value keeps it, and a new position starts at 1
  if the group is open and at 0 if it is closed.
\<close>

theorem item_progress_aligned:
  "length (animations (FABGroup_derive nextProps prevState)) = length (actions nextProps)
   \<and> (\<forall>i. i < length (actions nextProps) \<and> i < length (animations prevState) \<longrightarrow>
         animations (FABGroup_derive nextProps prevState) ! i = animations prevState ! i)
   \<and> (\<forall>i. i < length (actions nextProps) \<and> length (animations prevState) \<le> i \<longrightarrow>
         animations (FABGroup_derive nextProps prevState) ! i
           = Value (if open_prop nextProps then 1 else 0))"
  by (simp add: FABGroup_derive_def FABGroup_getDerivedStateFromProps_def)

theorem item_progress_aligned_witness:
  "length (animations (FABGroup_derive
      \<lparr>theme = \<lparr>animation = \<lparr>scale = 1\<rparr>\<rparr>,
       actions = [\<lparr>text_prop = ''Add'', onPress = \<lparr>requests = [], throws = False\<rparr>\<rparr>,
                  \<lparr>text_prop = ''Star'', onPress = \<lparr>requests = [], throws = False\<rparr>\<rparr>,
                  \<lparr>text_prop = ''Mail'', onPress = \<lparr>requests = [], throws = False\<rparr>\<rparr>],
       open_prop = True\<rparr>
      \<lparr>backdrop = Value 0.32, animations = [Value 0.4]\<rparr>)) = 3
   \<and> animations (FABGroup_derive
      \<lparr>theme = \<lparr>animation = \<lparr>scale = 1\<rparr>\<rparr>,
       actions = [\<lparr>text_prop = ''Add'', onPress = \<lparr>requests = [], throws = False\<rparr>\<rparr>,
                  \<lparr>text_prop = ''Star'', onPress = \<lparr>requests = [], throws = False\<rparr>\<rparr>,
                  \<lparr>text_prop = ''Mail'', onPress = \<lparr>requests = [], throws = False\<rparr>\<rparr>],
       open_prop = True\<rparr>
      \<lparr>backdrop = Value 0.32, animations = [Value 0.4]\<rparr>) ! 0 = Value 0.4
   \<and> animations (FABGroup_derive
      \<lparr>theme = \<lparr>animation = \<lparr>scale = 1\<rparr>\<rparr>,
       actions = [\<lparr>text_prop = ''Add'', onPress = \<lparr>requests = [], throws = False\<rparr>\<rparr>,
                  \<lparr>text_prop = ''Star'', onPress = \<lparr>requests = [], throws = False\<rparr>\<rparr>,
                  \<lparr>text_prop = ''Mail'', onPress = \<lparr>requests = [], throws = False\<rparr>\<rparr>],
       open_prop = True\<rparr>
      \<lparr>backdrop = Value 0.32, animations = [Value 0.4]\<rparr>) ! 2 = Value 1"
proof -
  let ?p = "\<lparr>theme = \<lparr>animation = \<lparr>scale = 1\<rparr>\<rparr>,
       actions = [\<lparr>text_prop = ''Add'', onPress = \<lparr>requests = [], throws = False\<rparr>\<rparr>,
                  \<lparr>text_prop = ''Star'', onPress = \<lparr>requests = [], throws = False\<rparr>\<rparr>,
                  \<lparr>text_prop = ''Mail'', onPress = \<lparr>requests = [], throws = False\<rparr>\<rparr>],
       open_prop = True\<rparr>"
  let ?s = "\<lparr>backdrop = Value 0.32, animations = [Value 0.4]\<rparr>"
  let ?xs = "animations (FABGroup_derive ?p ?s)"
  have all: "length ?xs = 3
      \<and> (\<forall>i. i < 3 \<and> i < 1 \<longrightarrow> ?xs ! i = [Value 0.4] ! i)
      \<and> (\<forall>i. i < 3 \<and> 1 \<le> i \<longrightarrow> ?xs ! i = Value 1)"
    using item_progress_aligned [of ?p ?s] by simp
  have len: "length ?xs = 3" using all by blast
  have "0 < (3::nat) \<and> 0 < (1::nat)" by simp
  with all have first: "?xs ! 0 = [Value 0.4] ! 0" by blast
  have "2 < (3::nat) \<and> 1 \<le> (2::nat)" by simp
  with all have new: "?xs ! 2 = Value 1" by blast
  show ?thesis using len first new by simp
qed

section \<open>FAB.Group: the animation of an open or close transition\<close>

lemma stagger_offsets_timings:
  "stagger_offsets t dt (map (\<lambda>k. Timing (tg k) (cfg k)) ks)
     = map (\<lambda>j. (tg (ks ! j), t + dt * real j)) [0 ..< length ks]"
proof (induction ks arbitrary: t)
  case Nil
  show ?case by simp
next
  case (Cons k ks)
  have "map (\<lambda>j. (tg ((k # ks) ! j), t + dt * real j)) [0 ..< length (k # ks)]
      = (tg k, t) # map (\<lambda>j. (tg (ks ! j), (t + dt) + dt * real j)) [0 ..< length ks]"
    by (simp add: upt_conv_Cons map_Suc_upt [symmetric] algebra_simps del: upt_Suc)
  then show ?case using Cons.IH [of "t + dt"] by simp
qed

lemma map_of_indexed:
  assumes "i < n" "inj_on f {0 ..< n}"
  shows "map_of (map (\<lambda>j. (Item (f j), v j)) [0 ..< n]) (Item (f i)) = Some (v i)"
proof -
  have "distinct (map fst (map (\<lambda>j. (Item (f j), v j)) [0 ..< n]))"
    using assms(2) by (simp add: distinct_map comp_def inj_on_def)
  moreover have "(Item (f i), v i) \<in> set (map (\<lambda>j. (Item (f j), v j)) [0 ..< n])"
    using assms(1) by auto
  ultimately show ?thesis by (rule map_of_is_SomeI)
qed

lemma opening_offsets:
  "stagger_offsets 0 dt (rev (map (\<lambda>i. Timing (Item i) c) [0 ..< n]))
     = map (\<lambda>j. (Item (n - 1 - j), dt * real j)) [0 ..< n]"
proof -
  have "rev (map (\<lambda>i. Timing (Item i) c) [0 ..< n])
      = map (\<lambda>k. Timing (Item k) c) (rev [0 ..< n])"
    by (simp add: rev_map)
  then have "stagger_offsets 0 dt (rev (map (\<lambda>i. Timing (Item i) c) [0 ..< n]))
      = map (\<lambda>j. (Item (rev [0 ..< n] ! j), 0 + dt * real j)) [0 ..< length (rev [0 ..< n])]"
    using stagger_offsets_timings [of 0 dt Item "\<lambda>_. c" "rev [0 ..< n]"] by simp
  also have "\<dots> = map (\<lambda>j. (Item (n - 1 - j), dt * real j)) [0 ..< n]"
    by (simp add: rev_nth)
  finally show ?thesis .
qed

lemma closing_offsets:
  "stagger_offsets 0 dt (map (\<lambda>i. Timing (Item i) c) [0 ..< n])
     = map (\<lambda>j. (Item j, dt * real j)) [0 ..< n]"
  using stagger_offsets_timings [of 0 dt Item "\<lambda>_. c" "[0 ..< n]"] by simp

lemma opening_offset_of:
  assumes "i < n"
  shows "start_offset_of (Item i)
           (Parallel [Timing Backdrop b, Stagger dt (rev (map (\<lambda>i. Timing (Item i) c) [0 ..< n]))])
         = Some (dt * real (n - 1 - i))"
proof -
  have inj: "inj_on (\<lambda>j. n - 1 - j) {0 ..< n}"
    by (auto simp add: inj_on_def)
  have "n - 1 - i < n" using assms by simp
  from map_of_indexed [OF this inj, of "\<lambda>j. dt * real j"] assms
  have "map_of (map (\<lambda>j. (Item (n - 1 - j), dt * real j)) [0 ..< n]) (Item i)
        = Some (dt * real (n - 1 - i))"
    by simp
  then show ?thesis
    by (simp add: start_offset_of_def opening_offsets)
qed

lemma closing_offset_of:
  assumes "i < n"
  shows "start_offset_of (Item i)
           (Parallel [Timing Backdrop b, Stagger dt (map (\<lambda>i. Timing (Item i) c) [0 ..< n])])
         = Some (dt * real i)"
proof -
  have "map_of (map (\<lambda>j. (Item j, dt * real j)) [0 ..< n]) (Item i) = Some (dt * real i)"
    using map_of_indexed [OF assms, of "\<lambda>j. j" "\<lambda>j. dt * real j"] by simp
  then show ?thesis
    by (simp add: start_offset_of_def closing_offsets)
qed

text \<open>
  C6. When \<open>open\<close> changes, the timings of the items are staggered. On opening, the
  timing of item \<open>i\<close> of \<open>n\<close> starts after \<open>n - 1 - i\<close> stagger offsets: the order is
  the reverse of the actions array and the last item starts first. On closing, item \<open>i\<close>
  starts after \<open>i\<close> offsets: the order is that of the array and the first item starts
  first. For a positive animation scale the start offsets are strictly ordered accordingly.
\<close>

theorem stagger_order:
  assumes "open_prop this_props \<noteq> open_prop prevProps"
  shows "\<exists>a. FABGroup_componentDidUpdate this_props this_state prevProps = Some a
     \<and> (\<forall>i. i < length (animations this_state) \<longrightarrow>
          start_offset_of (Item i) a =
            Some (50 * scale (animation (theme this_props)) *
              real (if open_prop this_props then length (animations this_state) - 1 - i else i)))
     \<and> (\<forall>i j. 0 < scale (animation (theme this_props)) \<and> i < j
               \<and> j < length (animations this_state) \<longrightarrow>
          (\<exists>oi oj. start_offset_of (Item i) a = Some oi \<and> start_offset_of (Item j) a = Some oj
             \<and> (if open_prop this_props then oj < oi else oi < oj)))"
proof -
  let ?n = "length (animations this_state)"
  let ?dt = "50 * scale (animation (theme this_props))"
  obtain a where a: "FABGroup_componentDidUpdate this_props this_state prevProps = Some a"
    using assms
    by (cases "open_prop this_props") (simp_all add: FABGroup_componentDidUpdate_def Let_def)
  have off: "start_offset_of (Item i) a =
      Some (?dt * real (if open_prop this_props then ?n - 1 - i else i))" if "i < ?n" for i
    using a assms that
    by (auto simp add: FABGroup_componentDidUpdate_def Let_def opening_offset_of
        closing_offset_of split: if_splits)
  have ord: "\<exists>oi oj. start_offset_of (Item i) a = Some oi \<and> start_offset_of (Item j) a = Some oj
      \<and> (if open_prop this_props then oj < oi else oi < oj)"
    if "0 < scale (animation (theme this_props))" "i < j" "j < ?n" for i j
  proof -
    have i: "i < ?n" using that by simp
    have "(if open_prop this_props
           then ?dt * real (?n - 1 - j) < ?dt * real (?n - 1 - i)
           else ?dt * real i < ?dt * real j)"
      using that by simp
    then show ?thesis
      using off [OF i] off [OF that(3)] by (simp split: if_splits)
  qed
  show ?thesis using a off ord by blast
qed

theorem stagger_order_witness:
  "open_prop \<lparr>theme = \<lparr>animation = \<lparr>scale = 2\<rparr>\<rparr>, actions = [], open_prop = True\<rparr> \<noteq> open_prop \<lparr>theme = \<lparr>animation = \<lparr>scale = 2\<rparr>\<rparr>, actions = [], open_prop = False\<rparr>
   \<and> (\<exists>a. FABGroup_componentDidUpdate \<lparr>theme = \<lparr>animation = \<lparr>scale = 2\<rparr>\<rparr>, actions = [], open_prop = True\<rparr> \<lparr>backdrop = Value 0, animations = [Value 0, Value 0, Value 0]\<rparr> \<lparr>theme = \<lparr>animation = \<lparr>scale = 2\<rparr>\<rparr>, actions = [], open_prop = False\<rparr> = Some a
         \<and> start_offset_of (Item 0) a = Some 200
         \<and> start_offset_of (Item 1) a = Some 100
         \<and> start_offset_of (Item 2) a = Some 0)
   \<and> (\<exists>a. FABGroup_componentDidUpdate \<lparr>theme = \<lparr>animation = \<lparr>scale = 2\<rparr>\<rparr>, actions = [], open_prop = False\<rparr> \<lparr>backdrop = Value 0, animations = [Value 0, Value 0, Value 0]\<rparr> \<lparr>theme = \<lparr>animation = \<lparr>scale = 2\<rparr>\<rparr>, actions = [], open_prop = True\<rparr> = Some a
         \<and> start_offset_of (Item 0) a = Some 0
         \<and> start_offset_of (Item 1) a = Some 100
         \<and> start_offset_of (Item 2) a = Some 200)"
  using stagger_order [of "\<lparr>theme = \<lparr>animation = \<lparr>scale = 2\<rparr>\<rparr>, actions = [], open_prop = True\<rparr>" "\<lparr>theme = \<lparr>animation = \<lparr>scale = 2\<rparr>\<rparr>, actions = [], open_prop = False\<rparr>" "\<lparr>backdrop = Value 0, animations = [Value 0, Value 0, Value 0]\<rparr>"]
        stagger_order [of "\<lparr>theme = \<lparr>animation = \<lparr>scale = 2\<rparr>\<rparr>, actions = [], open_prop = False\<rparr>" "\<lparr>theme = \<lparr>animation = \<lparr>scale = 2\<rparr>\<rparr>, actions = [], open_prop = True\<rparr>" "\<lparr>backdrop = Value 0, animations = [Value 0, Value 0, Value 0]\<rparr>"]
  by auto

text \<open>
  C7. When \<open>open\<close> changes, the backdrop is driven to 0.32 over 250 times the scale on
  opening and to 0 over 200 times the scale on closing, in parallel with a stagger that
  holds, for every item, exactly one timing of that item's progress value and nothing
  else, each lasting 150 times the scale, toward 1 on opening and 0 on closing; successive
  timings of the stagger start 50 times the scale apart.
\<close>

theorem transition_timings:
  assumes "open_prop this_props \<noteq> open_prop prevProps"
  shows "\<exists>items. FABGroup_componentDidUpdate this_props this_state prevProps =
       Some (Parallel [
         Timing Backdrop
           \<lparr>toValue = (if open_prop this_props then 0.32 else 0),
            duration = (if open_prop this_props then 250 else 200)
                         * scale (animation (theme this_props)),
            useNativeDriver = True\<rparr>,
         Stagger (50 * scale (animation (theme this_props))) items])
     \<and> length items = length (animations this_state)
     \<and> distinct items
     \<and> (\<forall>i < length (animations this_state).
           Timing (Item i)
             \<lparr>toValue = (if open_prop this_props then 1 else 0),
              duration = 150 * scale (animation (theme this_props)),
              useNativeDriver = True\<rparr> \<in> set items)
     \<and> (\<forall>a \<in> set items. \<exists>i < length (animations this_state).
           a = Timing (Item i)
                 \<lparr>toValue = (if open_prop this_props then 1 else 0),
                  duration = 150 * scale (animation (theme this_props)),
                  useNativeDriver = True\<rparr>)
     \<and> map snd (stagger_offsets 0 (50 * scale (animation (theme this_props))) items)
         = map (\<lambda>k. 50 * scale (animation (theme this_props)) * real k)
             [0 ..< length (animations this_state)]"
  using assms
  by (auto simp add: FABGroup_componentDidUpdate_def Let_def opening_offsets closing_offsets
      comp_def distinct_map inj_on_def)

theorem transition_timings_witness:
  "open_prop \<lparr>theme = \<lparr>animation = \<lparr>scale = 2\<rparr>\<rparr>, actions = [], open_prop = True\<rparr> \<noteq> open_prop \<lparr>theme = \<lparr>animation = \<lparr>scale = 2\<rparr>\<rparr>, actions = [], open_prop = False\<rparr>
   \<and> FABGroup_componentDidUpdate \<lparr>theme = \<lparr>animation = \<lparr>scale = 2\<rparr>\<rparr>, actions = [], open_prop = True\<rparr> \<lparr>backdrop = Value 0, animations = [Value 0, Value 0, Value 0]\<rparr> \<lparr>theme = \<lparr>animation = \<lparr>scale = 2\<rparr>\<rparr>, actions = [], open_prop = False\<rparr> =
       Some (Parallel [
         Timing Backdrop \<lparr>toValue = 0.32, duration = 500, useNativeDriver = True\<rparr>,
         Stagger 100
           [Timing (Item 2) \<lparr>toValue = 1, duration = 300, useNativeDriver = True\<rparr>,
            Timing (Item 1) \<lparr>toValue = 1, duration = 300, useNativeDriver = True\<rparr>,
            Timing (Item 0) \<lparr>toValue = 1, duration = 300, useNativeDriver = True\<rparr>]])"
  using transition_timings [of "\<lparr>theme = \<lparr>animation = \<lparr>scale = 2\<rparr>\<rparr>, actions = [], open_prop = True\<rparr>" "\<lparr>theme = \<lparr>animation = \<lparr>scale = 2\<rparr>\<rparr>, actions = [], open_prop = False\<rparr>" "\<lparr>backdrop = Value 0, animations = [Value 0, Value 0, Value 0]\<rparr>"]
  by (simp add: FABGroup_componentDidUpdate_def Let_def upt_rec numeral_3_eq_3)

section \<open>FAB.Group: activating an action\<close>

text \<open>
  C8, as the spec states it: activating an item issues exactly one close request whatever
  the item's callback does, also when it fails. It fails for a callback that throws: the
  handler calls the callback, the exception leaves the handler, and no close request is
  made.
\<close>

theorem close_after_throwing_callback_counterexample:
  "button_onPress
     \<lparr>theme = \<lparr>animation = \<lparr>scale = 1\<rparr>\<rparr>,
      actions = [\<lparr>text_prop = ''Add'', onPress = \<lparr>requests = [], throws = True\<rparr>\<rparr>],
      open_prop = True\<rparr>
     0 \<lparr>text_prop = ''Add'', onPress = \<lparr>requests = [], throws = True\<rparr>\<rparr> []
     = (Threw, [OnPress 0])
   \<and> close_requests (snd (button_onPress
        \<lparr>theme = \<lparr>animation = \<lparr>scale = 1\<rparr>\<rparr>,
         actions = [\<lparr>text_prop = ''Add'', onPress = \<lparr>requests = [], throws = True\<rparr>\<rparr>],
         open_prop = True\<rparr>
        0 \<lparr>text_prop = ''Add'', onPress = \<lparr>requests = [], throws = True\<rparr>\<rparr> [])) = 0"
  by (simp add: button_onPress_def invoke_def close_requests_def)

text \<open>
  C8, amended. Activating an item invokes the item's callback first. If the callback
  returns, whatever state changes it requested itself, the handler then issues exactly
  one close request and returns. If the callback throws, the exception leaves the handler
  and the handler issues no close request.
\<close>

theorem activation_closes_after_callback:
  "(\<not> throws (onPress it) \<longrightarrow>
      button_onPress props i it tr =
        (Returned,
         tr @ [OnPress i] @ map OnStateChange (requests (onPress it)) @ [OnStateChange False])
      \<and> close_requests (snd (button_onPress props i it tr)) =
          close_requests (tr @ [OnPress i] @ map OnStateChange (requests (onPress it))) + 1)
   \<and> (throws (onPress it) \<longrightarrow>
      button_onPress props i it tr =
        (Threw, tr @ [OnPress i] @ map OnStateChange (requests (onPress it))))
   \<and> (i < length (actions props) \<longrightarrow>
      button_handlers props ! i = button_onPress props i (actions props ! i))"
  by (simp add: button_onPress_def invoke_def close_def close_requests_def button_handlers_def)

theorem activation_closes_after_callback_witness:
  "\<not> throws (onPress \<lparr>text_prop = ''Star'', onPress = \<lparr>requests = [True], throws = False\<rparr>\<rparr>)
   \<and> button_onPress
       \<lparr>theme = \<lparr>animation = \<lparr>scale = 1\<rparr>\<rparr>,
        actions = [\<lparr>text_prop = ''Add'', onPress = \<lparr>requests = [], throws = True\<rparr>\<rparr>,
                   \<lparr>text_prop = ''Star'', onPress = \<lparr>requests = [True], throws = False\<rparr>\<rparr>],
        open_prop = True\<rparr>
       1 \<lparr>text_prop = ''Star'', onPress = \<lparr>requests = [True], throws = False\<rparr>\<rparr> []
       = (Returned, [OnPress 1, OnStateChange True, OnStateChange False])
   \<and> throws (onPress \<lparr>text_prop = ''Add'', onPress = \<lparr>requests = [], throws = True\<rparr>\<rparr>)
   \<and> button_onPress
       \<lparr>theme = \<lparr>animation = \<lparr>scale = 1\<rparr>\<rparr>,
        actions = [\<lparr>text_prop = ''Add'', onPress = \<lparr>requests = [], throws = True\<rparr>\<rparr>,
                   \<lparr>text_prop = ''Star'', onPress = \<lparr>requests = [True], throws = False\<rparr>\<rparr>],
        open_prop = True\<rparr>
       0 \<lparr>text_prop = ''Add'', onPress = \<lparr>requests = [], throws = True\<rparr>\<rparr> []
       = (Threw, [OnPress 0])
   \<and> (1::nat) < length (actions
       \<lparr>theme = \<lparr>animation = \<lparr>scale = 1\<rparr>\<rparr>,
        actions = [\<lparr>text_prop = ''Add'', onPress = \<lparr>requests = [], throws = True\<rparr>\<rparr>,
                   \<lparr>text_prop = ''Star'', onPress = \<lparr>requests = [True], throws = False\<rparr>\<rparr>],
        open_prop = True\<rparr>)"
  using activation_closes_after_callback
      [of "\<lparr>text_prop = ''Star'', onPress = \<lparr>requests = [True], throws = False\<rparr>\<rparr>"
          "\<lparr>theme = \<lparr>animation = \<lparr>scale = 1\<rparr>\<rparr>,
            actions = [\<lparr>text_prop = ''Add'', onPress = \<lparr>requests = [], throws = True\<rparr>\<rparr>,
                       \<lparr>text_prop = ''Star'', onPress = \<lparr>requests = [True], throws = False\<rparr>\<rparr>],
            open_prop = True\<rparr>"
          1 "[]"]
    activation_closes_after_callback
      [of "\<lparr>text_prop = ''Add'', onPress = \<lparr>requests = [], throws = True\<rparr>\<rparr>"
          "\<lparr>theme = \<lparr>animation = \<lparr>scale = 1\<rparr>\<rparr>,
            actions = [\<lparr>text_prop = ''Add'', onPress = \<lparr>requests = [], throws = True\<rparr>\<rparr>,
                       \<lparr>text_prop = ''Star'', onPress = \<lparr>requests = [True], throws = False\<rparr>\<rparr>],
            open_prop = True\<rparr>"
          0 "[]"]
  by simp

end
